theory Spec2Isabelle
  imports Complex_Main "HOL-Library.Word"
begin

section \<open>The headers of the arm controller projects\<close>

text \<open>
  The repository part under verification consists of four headers:
  \<^verbatim>\<open>Projects/Arm_Rev_B/main/constants.h\<close>, \<^verbatim>\<open>Projects/IMU_Control/main/constants.h\<close>,
  \<^verbatim>\<open>Projects/FPI_Control/main/RTOStasks.h\<close> and \<^verbatim>\<open>Projects/MC_Command_Servo/main/RTOStasks.h\<close>.
  A header is a sequence of preprocessor directives and declarations. Each header is
  transcribed line by line as a list of items, and the meaning of a header is what the
  preprocessor and the compiler make of that list: a macro table, a table of variables
  with their values, and a table of declared functions.
\<close>

subsection \<open>Syntax\<close>

datatype ctype = C_void | C_int | C_uint32 | C_double | C_ptr ctype

text \<open>An initialiser is an integer literal (possibly negated) or a decimal floating literal.\<close>

datatype literal = Int_lit int | Float_lit rat

text \<open>
  The items that can stand at the top level of a header.
  \<^item> \<open>Define n b\<close> is \<^verbatim>\<open>#define n b\<close> for an object-like macro whose replacement is a single
    integer literal (\<open>Some v\<close>) or empty (\<open>None\<close>, as in an include guard).
  \<^item> \<open>Variable cx t n l\<close> is \<^verbatim>\<open>t n = l;\<close>, with \<open>cx\<close> telling whether it is declared
    \<^verbatim>\<open>constexpr\<close>.
  \<^item> \<open>Function ec r n ps body\<close> is a function declaration with return type \<open>r\<close>, name \<open>n\<close>
    and parameter types \<open>ps\<close>; \<open>ec\<close> tells whether the declaration itself carries the
    \<^verbatim>\<open>extern "C"\<close> specifier, \<open>body\<close> whether a function body follows (a definition) or a
    semicolon (a prototype).
  \<^item> \<open>Extern_C_open\<close> is \<^verbatim>\<open>extern "C" {\<close> and \<open>Close_brace\<close> the closing \<^verbatim>\<open>}\<close>.

  The headers are used by code that is not part of them. For what such code can do to a
  name, two more items stand for the operations on a name in the code that follows a
  header, in the order in which they take effect:
  \<^item> \<open>Assign n l\<close> is an assignment \<^verbatim>\<open>n = l;\<close>;
  \<^item> \<open>Use n\<close> is an evaluation of the name \<open>n\<close> in an expression.
\<close>

datatype item =
    Include string
  | Pragma_once
  | Ifdef string
  | Ifndef string
  | Endif
  | Define string "nat option"
  | Undef string
  | Variable bool ctype string literal
  | Function bool ctype string "ctype list" bool
  | Extern_C_open
  | Close_brace
  | Assign string literal
  | Use string

subsection \<open>The four headers\<close>

definition Arm_Rev_B_constants_h :: "item list" where
  "Arm_Rev_B_constants_h =
   [Pragma_once,
    Define ''EEPROM_SIZE'' (Some 0x64),
    Define ''BEGINING_ADDR'' (Some 0x00),
    Define ''BNO055_CHIP_ID'' (Some 0x00),
    Define ''BNO055_ACC_ID'' (Some 0x01),
    Define ''BNO055_PAGE_ID'' (Some 0x07),
    Define ''BNO055_ADDR0'' (Some 0x28),
    Define ''BNO055_ADDR1'' (Some 0x29),
    Define ''BNO055_OPR_MODE'' (Some 0x3D),
    Define ''BNO055_PWR_MODE'' (Some 0x3E),
    Define ''BNO055_SYS_TRIGGER'' (Some 0x3F),
    Define ''act_PHASE'' (Some 5),
    Define ''act_ENABLE'' (Some 17),
    Variable True C_int ''kRotundaPin'' (Int_lit 19),
    Variable True C_int ''kRotundaPosMin'' (Int_lit 0),
    Variable True C_int ''kRotundaPosmax'' (Int_lit 3600),
    Variable True C_double ''kRotundaStartPos'' (Int_lit 1800),
    Variable True C_double ''kRotundaStartDuty'' (Float_lit 50.0),
    Variable True C_double ''kRotundaFreq'' (Int_lit 50),
    Variable True C_double ''kRotundaPWMMin'' (Float_lit 2.5),
    Variable True C_double ''kRotundaPWMMax'' (Float_lit 12.5),
    Variable True C_int ''kElbowPin'' (Int_lit 27),
    Variable True C_int ''kElbowLimitMin'' (Int_lit 100),
    Variable True C_int ''kElbowLimitMax'' (Int_lit 290),
    Variable True C_double ''kElbowRange'' (Int_lit 300),
    Variable True C_double ''kElbowStartPos'' (Int_lit 150),
    Variable True C_double ''kElbowFreq'' (Int_lit 50),
    Variable True C_double ''kElbowPWMMin'' (Float_lit 2.5),
    Variable True C_double ''kElbowPWMMax'' (Float_lit 12.5),
    Variable True C_uint32 ''kMotorFreq'' (Int_lit 5000),
    Variable True C_uint32 ''kShoulderSigPin'' (Int_lit 25),
    Variable True C_uint32 ''kShoulderDirPin'' (Int_lit 26),
    Variable True C_double ''kShoulderLimitMin'' (Int_lit 5),
    Variable True C_double ''kShoulderLimitMax'' (Int_lit 70),
    Variable True C_uint32 ''kShoulderEnablePWMMin'' (Int_lit 0),
    Variable True C_uint32 ''kShoulderEnablePWMMax'' (Int_lit 100),
    Variable True C_uint32 ''kWristLeftSigPin'' (Int_lit 0),
    Variable True C_uint32 ''kWristLeftDirPin'' (Int_lit 2),
    Variable True C_uint32 ''kWristRightSigPin'' (Int_lit 16),
    Variable True C_uint32 ''kWristRightDirPin'' (Int_lit 4),
    Variable True C_double ''kWristPitchLimitMin'' (Int_lit (- 90)),
    Variable True C_double ''kWristPitchLimitMax'' (Int_lit 90),
    Variable True C_uint32 ''kWristEnablePWMMin'' (Int_lit 0),
    Variable True C_uint32 ''kWristEnablePWMMax'' (Int_lit 100),
    Define ''IMU_ADDRESS_SHOULDER'' (Some 0x29),
    Define ''BEGINING_ADDR'' (Some 0x00),
    Define ''BNO055_CHIP_ID'' (Some 0x00),
    Define ''BNO055_ACC_ID'' (Some 0x01),
    Define ''BNO055_PAGE_ID'' (Some 0x07),
    Define ''BNO055_ACC_DATA_X_LSB'' (Some 0x08),
    Define ''BNO055_ACC_DATA_X_MSB'' (Some 0x09),
    Define ''BNO055_EUL_YAW_LSB'' (Some 0x1A),
    Define ''BNO055_EUL_YAW_MSB'' (Some 0x1B),
    Define ''BNO055_EUL_ROLL_LSB'' (Some 0x1C),
    Define ''BNO055_EUL_ROLL_MSB'' (Some 0x1D),
    Define ''BNO055_EUL_PITCH_LSB'' (Some 0x1E),
    Define ''BNO055_EUL_PITCH_MSB'' (Some 0x1F),
    Define ''BNO055_UNIT_SEL'' (Some 0x3B),
    Define ''BNO055_OPR_MODE'' (Some 0x3D),
    Define ''BNO055_PWR_MODE'' (Some 0x3E),
    Define ''BNO055_SYS_TRIGGER'' (Some 0x3F),
    Define ''MPU6050_ACCEL_XOUT_H'' (Some 0x3B),
    Define ''MPU6050_ACCEL_XOUT_L'' (Some 0x3C),
    Define ''MPU6050_ACCEL_YOUT_H'' (Some 0x3D),
    Define ''MPU6050_ACCEL_YOUT_L'' (Some 0x3E),
    Define ''MPU6050_ACCEL_ZOUT_H'' (Some 0x3F),
    Define ''MPU6050_ACCEL_ZOUT_L'' (Some 0x40),
    Define ''MPU6050_TEMP_OUT_H'' (Some 0x41),
    Define ''MPU6050_TEMP_OUT_L'' (Some 0x42),
    Define ''MPU6050_GYRO_XOUT_H'' (Some 0x43),
    Define ''MPU6050_GYRO_XOUT_L'' (Some 0x44),
    Define ''MPU6050_GYRO_YOUT_H'' (Some 0x45),
    Define ''MPU6050_GYRO_YOUT_L'' (Some 0x46),
    Define ''MPU6050_GYRO_ZOUT_H'' (Some 0x47),
    Define ''MPU6050_GYRO_ZOUT_L'' (Some 0x48),
    Define ''MPU6050_ADDR0'' (Some 0x68),
    Define ''MPU6050_ADDR1'' (Some 0x69),
    Define ''MPU6050_PWR_MGMT_1'' (Some 0x6B)]"

definition IMU_Control_constants_h :: "item list" where
  "IMU_Control_constants_h =
   [Define ''EEPROM_SIZE'' (Some 0x64),
    Define ''BEGINING_ADDR'' (Some 0x00),
    Define ''BNO055_CHIP_ID'' (Some 0x00),
    Define ''BNO055_ACC_ID'' (Some 0x01),
    Define ''BNO055_PAGE_ID'' (Some 0x07),
    Define ''BNO055_ACC_DATA_X_LSB'' (Some 0x08),
    Define ''BNO055_ACC_DATA_X_MSB'' (Some 0x09),
    Define ''BNO055_EUL_YAW_LSB'' (Some 0x1A),
    Define ''BNO055_EUL_YAW_MSB'' (Some 0x1B),
    Define ''BNO055_EUL_ROLL_LSB'' (Some 0x1C),
    Define ''BNO055_EUL_ROLL_MSB'' (Some 0x1D),
    Define ''BNO055_EUL_PITCH_LSB'' (Some 0x1E),
    Define ''BNO055_EUL_PITCH_MSB'' (Some 0x1F),
    Define ''BNO055_UNIT_SEL'' (Some 0x3B),
    Define ''BNO055_OPR_MODE'' (Some 0x3D),
    Define ''BNO055_PWR_MODE'' (Some 0x3E),
    Define ''BNO055_SYS_TRIGGER'' (Some 0x3F),
    Define ''IMU_ADDRESS_SHOULDER'' (Some 0x29),
    Define ''MPU6050_ACCEL_XOUT_H'' (Some 0x3B),
    Define ''MPU6050_ACCEL_XOUT_L'' (Some 0x3C),
    Define ''MPU6050_ACCEL_YOUT_H'' (Some 0x3D),
    Define ''MPU6050_ACCEL_YOUT_L'' (Some 0x3E),
    Define ''MPU6050_ACCEL_ZOUT_H'' (Some 0x3F),
    Define ''MPU6050_ACCEL_ZOUT_L'' (Some 0x40),
    Define ''MPU6050_TEMP_OUT_H'' (Some 0x41),
    Define ''MPU6050_TEMP_OUT_L'' (Some 0x42),
    Define ''MPU6050_GYRO_XOUT_H'' (Some 0x43),
    Define ''MPU6050_GYRO_XOUT_L'' (Some 0x44),
    Define ''MPU6050_GYRO_YOUT_H'' (Some 0x45),
    Define ''MPU6050_GYRO_YOUT_L'' (Some 0x46),
    Define ''MPU6050_GYRO_ZOUT_H'' (Some 0x47),
    Define ''MPU6050_GYRO_ZOUT_L'' (Some 0x48),
    Define ''MPU6050_ADDR0'' (Some 0x68),
    Define ''MPU6050_ADDR1'' (Some 0x69),
    Define ''MPU6050_PWR_MGMT_1'' (Some 0x6B)]"

definition FPI_Control_RTOStasks_h :: "item list" where
  "FPI_Control_RTOStasks_h =
   [Include ''stdlib.h'',
    Include ''freertos/FreeRTOS.h'',
    Include ''freertos/portmacro.h'',
    Include ''freertos/event_groups.h'',
    Ifndef ''RTOS_TASKS_H_'',
    Define ''RTOS_TASKS_H_'' None,
    Ifdef ''_cplusplus'',
    Extern_C_open,
    Endif,
    Function True C_void ''vFPITask'' [C_ptr C_void] False,
    Ifdef ''_cplusplus'',
    Close_brace,
    Endif,
    Endif]"

definition MC_Command_Servo_RTOStasks_h :: "item list" where
  "MC_Command_Servo_RTOStasks_h =
   [Include ''stdlib.h'',
    Include ''freertos/FreeRTOS.h'',
    Include ''freertos/portmacro.h'',
    Include ''freertos/event_groups.h'',
    Ifndef ''RTOS_TASKS_H_'',
    Define ''RTOS_TASKS_H_'' None,
    Ifdef ''_cplusplus'',
    Extern_C_open,
    Endif,
    Function True C_void ''vCountTask'' [C_ptr C_void] False,
    Function True C_void ''vRotundaTask'' [C_ptr C_void] False,
    Function True C_void ''vElbowTask'' [C_ptr C_void] False,
    Function True C_void ''vShoulderTask'' [C_ptr C_void] False,
    Function True C_void ''vDiffGearboxTask'' [C_ptr C_void] False,
    Function True C_void ''vClawTask'' [C_ptr C_void] False,
    Ifdef ''_cplusplus'',
    Close_brace,
    Endif,
    Endif]"

subsection \<open>Values of initialisers\<close>

datatype cvalue = Int_val int | UInt32_val "32 word" | Double_val rat

text \<open>
  A \<^verbatim>\<open>double\<close> is an IEEE 754 binary64 number. The model does not round: it accepts an
  initialiser of a \<^verbatim>\<open>double\<close> only when the literal is a binary64 number already, that is
  \<open>n / 2 ^ k\<close> in lowest terms with \<open>\<bar>n\<bar> < 2 ^ 53\<close> and \<open>k \<le> 1022\<close>, so that the value
  stored is the value written.
\<close>

fun is_pow2 :: "nat \<Rightarrow> bool" where
  "is_pow2 n = (if n \<le> 1 then n = 1 else even n \<and> is_pow2 (n div 2))"

declare is_pow2.simps [simp del]

definition binary64_exact :: "rat \<Rightarrow> bool" where
  "binary64_exact r =
     (case quotient_of r of (n, d) \<Rightarrow> \<bar>n\<bar> < 2 ^ 53 \<and> d \<le> 2 ^ 1022 \<and> is_pow2 (nat d))"

text \<open>
  The value a variable of type \<open>t\<close> gets from a literal. An integer literal that fits
  \<^verbatim>\<open>int\<close> initialises an \<^verbatim>\<open>int\<close> with its value, a \<^verbatim>\<open>uint32_t\<close> with its value modulo
  \<open>2 ^ 32\<close> and a \<^verbatim>\<open>double\<close> with its value (every \<^verbatim>\<open>int\<close> is a binary64 number). No other
  combination occurs in the headers; the model rejects them.
\<close>

fun init_value :: "ctype \<Rightarrow> literal \<Rightarrow> cvalue option" where
  "init_value C_int (Int_lit i) =
     (if - (2 ^ 31) \<le> i \<and> i < 2 ^ 31 then Some (Int_val i) else None)"
| "init_value C_uint32 (Int_lit i) =
     (if - (2 ^ 31) \<le> i \<and> i < 2 ^ 31 then Some (UInt32_val (word_of_int i)) else None)"
| "init_value C_double (Int_lit i) =
     (if - (2 ^ 31) \<le> i \<and> i < 2 ^ 31 then Some (Double_val (of_int i)) else None)"
| "init_value C_double (Float_lit r) =
     (if binary64_exact r then Some (Double_val r) else None)"
| "init_value _ _ = None"

text \<open>The type of the object that holds a value.\<close>

fun value_type :: "cvalue \<Rightarrow> ctype" where
  "value_type (Int_val _) = C_int"
| "value_type (UInt32_val _) = C_uint32"
| "value_type (Double_val _) = C_double"

text \<open>The number a value stands for.\<close>

fun num_of :: "cvalue \<Rightarrow> rat" where
  "num_of (Int_val i) = of_int i"
| "num_of (UInt32_val w) = of_nat (unat w)"
| "num_of (Double_val r) = r"

subsection \<open>Preprocessing and declaration processing\<close>

datatype cpp_error =
    Redefined string
  | Redeclared string
  | Bad_initialiser string
  | Endif_without_if
  | Unterminated_if
  | Unbalanced_brace
  | Undeclared string
  | Assign_to_constant string
  | Not_assignable string

record fun_decl =
  c_linkage :: bool
  result :: ctype
  params :: "ctype list"
  defined :: bool

text \<open>
  The state while a header is read: the macro table, the stack of open conditionals
  (each entry tells whether the text inside is kept), the number of open
  \<^verbatim>\<open>extern "C" {\<close> blocks, the variables declared so far (whether \<^verbatim>\<open>constexpr\<close>, and the
  value) and the functions declared so far.
\<close>

record cpp_state =
  macros :: "(string \<times> nat option) list"
  conds :: "bool list"
  c_depth :: nat
  vars :: "(string \<times> bool \<times> cvalue) list"
  funs :: "(string \<times> fun_decl) list"

definition init_state :: "(string \<times> nat option) list \<Rightarrow> cpp_state" where
  "init_state predefined =
     \<lparr>macros = predefined, conds = [], c_depth = 0, vars = [], funs = []\<rparr>"

definition active :: "cpp_state \<Rightarrow> bool" where
  "active s = (case conds s of [] \<Rightarrow> True | b # _ \<Rightarrow> b)"

definition is_defined :: "cpp_state \<Rightarrow> string \<Rightarrow> bool" where
  "is_defined s n = (map_of (macros s) n \<noteq> None)"

text \<open>
  An item in text that is kept. A macro may be defined again only with the same
  replacement; a variable may be declared once; a function may be declared again only
  with the same declaration. Included files are outside the repository (the C library
  and FreeRTOS) and contribute nothing to the tables here.

  An assignment is compiled only when its target is a variable that is not \<^verbatim>\<open>constexpr\<close>
  (a \<^verbatim>\<open>constexpr\<close> variable is \<^verbatim>\<open>const\<close>, and a macro name is replaced by a literal, which
  cannot be assigned to); it then gives the variable the new value, converted to the
  variable's type. A use of a name is compiled when the name is a macro or a variable,
  and changes nothing.
\<close>

fun exec :: "cpp_state \<Rightarrow> item \<Rightarrow> cpp_error + cpp_state" where
  "exec s (Define n b) =
     (case map_of (macros s) n of
        None \<Rightarrow> Inr (s\<lparr>macros := macros s @ [(n, b)]\<rparr>)
      | Some b' \<Rightarrow> if b' = b then Inr s else Inl (Redefined n))"
| "exec s (Undef n) = Inr (s\<lparr>macros := filter (\<lambda>p. fst p \<noteq> n) (macros s)\<rparr>)"
| "exec s (Variable cx t n l) =
     (case map_of (vars s) n of
        Some _ \<Rightarrow> Inl (Redeclared n)
      | None \<Rightarrow>
          (case init_value t l of
             None \<Rightarrow> Inl (Bad_initialiser n)
           | Some v \<Rightarrow> Inr (s\<lparr>vars := vars s @ [(n, cx, v)]\<rparr>)))"
| "exec s (Function ec r n ps body) =
     (let d = \<lparr>c_linkage = (ec \<or> 0 < c_depth s), result = r, params = ps, defined = body\<rparr>
      in case map_of (funs s) n of
           None \<Rightarrow> Inr (s\<lparr>funs := funs s @ [(n, d)]\<rparr>)
         | Some d' \<Rightarrow> if d' = d then Inr s else Inl (Redeclared n))"
| "exec s Extern_C_open = Inr (s\<lparr>c_depth := Suc (c_depth s)\<rparr>)"
| "exec s Close_brace =
     (case c_depth s of 0 \<Rightarrow> Inl Unbalanced_brace | Suc d \<Rightarrow> Inr (s\<lparr>c_depth := d\<rparr>))"
| "exec s (Assign n l) =
     (case map_of (macros s) n of
        Some _ \<Rightarrow> Inl (Not_assignable n)
      | None \<Rightarrow>
          (case map_of (vars s) n of
             None \<Rightarrow> Inl (Undeclared n)
           | Some (cx, v) \<Rightarrow>
               if cx then Inl (Assign_to_constant n)
               else (case init_value (value_type v) l of
                       None \<Rightarrow> Inl (Bad_initialiser n)
                     | Some v' \<Rightarrow>
                         Inr (s\<lparr>vars :=
                           map (\<lambda>p. if fst p = n then (n, False, v') else p) (vars s)\<rparr>))))"
| "exec s (Use n) =
     (case (map_of (macros s) n, map_of (vars s) n) of
        (None, None) \<Rightarrow> Inl (Undeclared n)
      | _ \<Rightarrow> Inr s)"
| "exec s _ = Inr s"

text \<open>Conditional directives are obeyed everywhere; any other item only in kept text.\<close>

fun step :: "cpp_state \<Rightarrow> item \<Rightarrow> cpp_error + cpp_state" where
  "step s (Ifdef n) = Inr (s\<lparr>conds := (active s \<and> is_defined s n) # conds s\<rparr>)"
| "step s (Ifndef n) = Inr (s\<lparr>conds := (active s \<and> \<not> is_defined s n) # conds s\<rparr>)"
| "step s Endif =
     (case conds s of [] \<Rightarrow> Inl Endif_without_if | _ # cs \<Rightarrow> Inr (s\<lparr>conds := cs\<rparr>))"
| "step s it = (if active s then exec s it else Inr s)"

fun run :: "cpp_state \<Rightarrow> item list \<Rightarrow> cpp_error + cpp_state" where
  "run s [] = Inr s"
| "run s (it # its) = (case step s it of Inl e \<Rightarrow> Inl e | Inr s' \<Rightarrow> run s' its)"

text \<open>
  A header compiled on its own, starting from the macros \<open>predefined\<close>: at its end every
  conditional and every brace must be closed.
\<close>

definition translate :: "(string \<times> nat option) list \<Rightarrow> item list \<Rightarrow> cpp_error + cpp_state" where
  "translate predefined h =
     (case run (init_state predefined) h of
        Inl e \<Rightarrow> Inl e
      | Inr s \<Rightarrow>
          if conds s \<noteq> [] then Inl Unterminated_if
          else if c_depth s \<noteq> 0 then Inl Unbalanced_brace
          else Inr s)"

subsection \<open>Reading the tables\<close>

text \<open>The integer a macro stands for after the header, if the header defines it so.\<close>

definition macro :: "item list \<Rightarrow> string \<Rightarrow> nat option" where
  "macro h n =
     (case translate [] h of
        Inl _ \<Rightarrow> None
      | Inr s \<Rightarrow> (case map_of (macros s) n of Some (Some v) \<Rightarrow> Some v | _ \<Rightarrow> None))"

text \<open>The value of a \<^verbatim>\<open>constexpr\<close> variable of the header.\<close>

definition constexpr_value :: "item list \<Rightarrow> string \<Rightarrow> cvalue option" where
  "constexpr_value h n =
     (case translate [] h of
        Inl _ \<Rightarrow> None
      | Inr s \<Rightarrow> (case map_of (vars s) n of Some (True, v) \<Rightarrow> Some v | _ \<Rightarrow> None))"


definition function_decl :: "item list \<Rightarrow> string \<Rightarrow> fun_decl option" where
  "function_decl h n =
     (case translate [] h of Inl _ \<Rightarrow> None | Inr s \<Rightarrow> map_of (funs s) n)"

text \<open>The functions a header declares, in the order of their first declaration.\<close>

definition declared_functions :: "item list \<Rightarrow> string list" where
  "declared_functions h =
     (case translate [] h of Inl _ \<Rightarrow> [] | Inr s \<Rightarrow> map fst (funs s))"

text \<open>The number a \<^verbatim>\<open>constexpr\<close> variable stands for, and comparisons of two of them.\<close>

definition const_num :: "item list \<Rightarrow> string \<Rightarrow> rat option" where
  "const_num h n = map_option num_of (constexpr_value h n)"

definition const_less :: "item list \<Rightarrow> string \<Rightarrow> string \<Rightarrow> bool" where
  "const_less h a b =
     (case (const_num h a, const_num h b) of (Some x, Some y) \<Rightarrow> x < y | _ \<Rightarrow> False)"

definition const_le :: "item list \<Rightarrow> string \<Rightarrow> string \<Rightarrow> bool" where
  "const_le h a b =
     (case (const_num h a, const_num h b) of (Some x, Some y) \<Rightarrow> x \<le> y | _ \<Rightarrow> False)"

definition const_positive :: "item list \<Rightarrow> string \<Rightarrow> bool" where
  "const_positive h a = (case const_num h a of Some x \<Rightarrow> 0 < x | None \<Rightarrow> False)"

text \<open>The declaration every task entry point is expected to have: \<^verbatim>\<open>extern "C" void f(void *);\<close>\<close>

definition task_prototype :: fun_decl where
  "task_prototype =
     \<lparr>c_linkage = True, result = C_void, params = [C_ptr C_void], defined = False\<rparr>"

subsection \<open>Reading the tables part way through a text\<close>


definition var_at :: "item list \<Rightarrow> nat \<Rightarrow> string \<Rightarrow> (bool \<times> cvalue) option" where
  "var_at h k n =
     (case run (init_state []) (take k h) of Inl _ \<Rightarrow> None | Inr s \<Rightarrow> map_of (vars s) n)"

subsection \<open>Kinds of items\<close>




fun has_body :: "item \<Rightarrow> bool" where
  "has_body (Function _ _ _ _ body) = body"
| "has_body _ = False"

fun is_constant :: "item \<Rightarrow> bool" where
  "is_constant (Define _ (Some _)) = True"
| "is_constant (Variable cx _ _ _) = cx"
| "is_constant _ = False"

fun is_prototype :: "item \<Rightarrow> bool" where
  "is_prototype (Function _ _ _ _ body) = (\<not> body)"
| "is_prototype _ = False"

fun is_scaffolding :: "item \<Rightarrow> bool" where
  "is_scaffolding (Include _) = True"
| "is_scaffolding Pragma_once = True"
| "is_scaffolding (Ifdef _) = True"
| "is_scaffolding (Ifndef _) = True"
| "is_scaffolding Endif = True"
| "is_scaffolding (Define _ None) = True"
| "is_scaffolding Extern_C_open = True"
| "is_scaffolding Close_brace = True"
| "is_scaffolding _ = False"

section \<open>The headers are well formed\<close>

lemma translate_Arm_Rev_B:
  "translate [] Arm_Rev_B_constants_h = Inr
     \<lparr>macros =
        [(''EEPROM_SIZE'', Some 0x64),
         (''BEGINING_ADDR'', Some 0x00),
         (''BNO055_CHIP_ID'', Some 0x00),
         (''BNO055_ACC_ID'', Some 0x01),
         (''BNO055_PAGE_ID'', Some 0x07),
         (''BNO055_ADDR0'', Some 0x28),
         (''BNO055_ADDR1'', Some 0x29),
         (''BNO055_OPR_MODE'', Some 0x3D),
         (''BNO055_PWR_MODE'', Some 0x3E),
         (''BNO055_SYS_TRIGGER'', Some 0x3F),
         (''act_PHASE'', Some 5),
         (''act_ENABLE'', Some 17),
         (''IMU_ADDRESS_SHOULDER'', Some 0x29),
         (''BNO055_ACC_DATA_X_LSB'', Some 0x08),
         (''BNO055_ACC_DATA_X_MSB'', Some 0x09),
         (''BNO055_EUL_YAW_LSB'', Some 0x1A),
         (''BNO055_EUL_YAW_MSB'', Some 0x1B),
         (''BNO055_EUL_ROLL_LSB'', Some 0x1C),
         (''BNO055_EUL_ROLL_MSB'', Some 0x1D),
         (''BNO055_EUL_PITCH_LSB'', Some 0x1E),
         (''BNO055_EUL_PITCH_MSB'', Some 0x1F),
         (''BNO055_UNIT_SEL'', Some 0x3B),
         (''MPU6050_ACCEL_XOUT_H'', Some 0x3B),
         (''MPU6050_ACCEL_XOUT_L'', Some 0x3C),
         (''MPU6050_ACCEL_YOUT_H'', Some 0x3D),
         (''MPU6050_ACCEL_YOUT_L'', Some 0x3E),
         (''MPU6050_ACCEL_ZOUT_H'', Some 0x3F),
         (''MPU6050_ACCEL_ZOUT_L'', Some 0x40),
         (''MPU6050_TEMP_OUT_H'', Some 0x41),
         (''MPU6050_TEMP_OUT_L'', Some 0x42),
         (''MPU6050_GYRO_XOUT_H'', Some 0x43),
         (''MPU6050_GYRO_XOUT_L'', Some 0x44),
         (''MPU6050_GYRO_YOUT_H'', Some 0x45),
         (''MPU6050_GYRO_YOUT_L'', Some 0x46),
         (''MPU6050_GYRO_ZOUT_H'', Some 0x47),
         (''MPU6050_GYRO_ZOUT_L'', Some 0x48),
         (''MPU6050_ADDR0'', Some 0x68),
         (''MPU6050_ADDR1'', Some 0x69),
         (''MPU6050_PWR_MGMT_1'', Some 0x6B)],
      conds = [],
      c_depth = 0,
      vars =
        [(''kRotundaPin'', True, Int_val 19),
         (''kRotundaPosMin'', True, Int_val 0),
         (''kRotundaPosmax'', True, Int_val 3600),
         (''kRotundaStartPos'', True, Double_val 1800),
         (''kRotundaStartDuty'', True, Double_val 50),
         (''kRotundaFreq'', True, Double_val 50),
         (''kRotundaPWMMin'', True, Double_val 2.5),
         (''kRotundaPWMMax'', True, Double_val 12.5),
         (''kElbowPin'', True, Int_val 27),
         (''kElbowLimitMin'', True, Int_val 100),
         (''kElbowLimitMax'', True, Int_val 290),
         (''kElbowRange'', True, Double_val 300),
         (''kElbowStartPos'', True, Double_val 150),
         (''kElbowFreq'', True, Double_val 50),
         (''kElbowPWMMin'', True, Double_val 2.5),
         (''kElbowPWMMax'', True, Double_val 12.5),
         (''kMotorFreq'', True, UInt32_val 5000),
         (''kShoulderSigPin'', True, UInt32_val 25),
         (''kShoulderDirPin'', True, UInt32_val 26),
         (''kShoulderLimitMin'', True, Double_val 5),
         (''kShoulderLimitMax'', True, Double_val 70),
         (''kShoulderEnablePWMMin'', True, UInt32_val 0),
         (''kShoulderEnablePWMMax'', True, UInt32_val 100),
         (''kWristLeftSigPin'', True, UInt32_val 0),
         (''kWristLeftDirPin'', True, UInt32_val 2),
         (''kWristRightSigPin'', True, UInt32_val 16),
         (''kWristRightDirPin'', True, UInt32_val 4),
         (''kWristPitchLimitMin'', True, Double_val (- 90)),
         (''kWristPitchLimitMax'', True, Double_val 90),
         (''kWristEnablePWMMin'', True, UInt32_val 0),
         (''kWristEnablePWMMax'', True, UInt32_val 100)],
      funs = []\<rparr>"
  by code_simp


lemma translate_IMU_Control:
  "translate [] IMU_Control_constants_h = Inr
     \<lparr>macros =
        [(''EEPROM_SIZE'', Some 0x64),
         (''BEGINING_ADDR'', Some 0x00),
         (''BNO055_CHIP_ID'', Some 0x00),
         (''BNO055_ACC_ID'', Some 0x01),
         (''BNO055_PAGE_ID'', Some 0x07),
         (''BNO055_ACC_DATA_X_LSB'', Some 0x08),
         (''BNO055_ACC_DATA_X_MSB'', Some 0x09),
         (''BNO055_EUL_YAW_LSB'', Some 0x1A),
         (''BNO055_EUL_YAW_MSB'', Some 0x1B),
         (''BNO055_EUL_ROLL_LSB'', Some 0x1C),
         (''BNO055_EUL_ROLL_MSB'', Some 0x1D),
         (''BNO055_EUL_PITCH_LSB'', Some 0x1E),
         (''BNO055_EUL_PITCH_MSB'', Some 0x1F),
         (''BNO055_UNIT_SEL'', Some 0x3B),
         (''BNO055_OPR_MODE'', Some 0x3D),
         (''BNO055_PWR_MODE'', Some 0x3E),
         (''BNO055_SYS_TRIGGER'', Some 0x3F),
         (''IMU_ADDRESS_SHOULDER'', Some 0x29),
         (''MPU6050_ACCEL_XOUT_H'', Some 0x3B),
         (''MPU6050_ACCEL_XOUT_L'', Some 0x3C),
         (''MPU6050_ACCEL_YOUT_H'', Some 0x3D),
         (''MPU6050_ACCEL_YOUT_L'', Some 0x3E),
         (''MPU6050_ACCEL_ZOUT_H'', Some 0x3F),
         (''MPU6050_ACCEL_ZOUT_L'', Some 0x40),
         (''MPU6050_TEMP_OUT_H'', Some 0x41),
         (''MPU6050_TEMP_OUT_L'', Some 0x42),
         (''MPU6050_GYRO_XOUT_H'', Some 0x43),
         (''MPU6050_GYRO_XOUT_L'', Some 0x44),
         (''MPU6050_GYRO_YOUT_H'', Some 0x45),
         (''MPU6050_GYRO_YOUT_L'', Some 0x46),
         (''MPU6050_GYRO_ZOUT_H'', Some 0x47),
         (''MPU6050_GYRO_ZOUT_L'', Some 0x48),
         (''MPU6050_ADDR0'', Some 0x68),
         (''MPU6050_ADDR1'', Some 0x69),
         (''MPU6050_PWR_MGMT_1'', Some 0x6B)],
      conds = [],
      c_depth = 0,
      vars = [],
      funs = []\<rparr>"
  by code_simp

text \<open>
  In the two task headers the guard \<^verbatim>\<open>_cplusplus\<close> is not defined, so the
  \<^verbatim>\<open>extern "C" {\<close> block is not opened; every prototype carries the specifier itself.
\<close>

lemma translate_FPI_Control:
  "translate [] FPI_Control_RTOStasks_h = Inr
     \<lparr>macros = [(''RTOS_TASKS_H_'', None)],
      conds = [],
      c_depth = 0,
      vars = [],
      funs =
        [(''vFPITask'',
          \<lparr>c_linkage = True, result = C_void, params = [C_ptr C_void], defined = False\<rparr>)]\<rparr>"
  by code_simp

lemma translate_MC_Command_Servo:
  "translate [] MC_Command_Servo_RTOStasks_h = Inr
     \<lparr>macros = [(''RTOS_TASKS_H_'', None)],
      conds = [],
      c_depth = 0,
      vars = [],
      funs =
        [(''vCountTask'',
          \<lparr>c_linkage = True, result = C_void, params = [C_ptr C_void], defined = False\<rparr>),
         (''vRotundaTask'',
          \<lparr>c_linkage = True, result = C_void, params = [C_ptr C_void], defined = False\<rparr>),
         (''vElbowTask'',
          \<lparr>c_linkage = True, result = C_void, params = [C_ptr C_void], defined = False\<rparr>),
         (''vShoulderTask'',
          \<lparr>c_linkage = True, result = C_void, params = [C_ptr C_void], defined = False\<rparr>),
         (''vDiffGearboxTask'',
          \<lparr>c_linkage = True, result = C_void, params = [C_ptr C_void], defined = False\<rparr>),
         (''vClawTask'',
          \<lparr>c_linkage = True, result = C_void, params = [C_ptr C_void], defined = False\<rparr>)]\<rparr>"
  by code_simp

lemmas translate_headers =
  translate_Arm_Rev_B translate_IMU_Control translate_FPI_Control translate_MC_Command_Servo

text \<open>
  The checks of the model are live: a macro defined again with another replacement, a
  variable declared twice, a literal that is not a binary64 number and an unclosed
  conditional are all refused.
\<close>

lemma translate_refuses:
  "translate [] [Define ''A'' (Some 1), Define ''A'' (Some 2)] = Inl (Redefined ''A'')"
  "translate [] [Variable True C_int ''k'' (Int_lit 1), Variable True C_int ''k'' (Int_lit 1)]
     = Inl (Redeclared ''k'')"
  "translate [] [Variable True C_double ''k'' (Float_lit 0.1)] = Inl (Bad_initialiser ''k'')"
  "translate [] [Ifndef ''G'', Define ''G'' None] = Inl Unterminated_if"
  by code_simp+

text \<open>
  With \<^verbatim>\<open>_cplusplus\<close> defined beforehand the linkage block of the task headers is
  opened and closed, and the declarations come out the same.
\<close>

lemma translate_FPI_Control_cplusplus:
  "translate [(''_cplusplus'', None)] FPI_Control_RTOStasks_h = Inr
     \<lparr>macros = [(''_cplusplus'', None), (''RTOS_TASKS_H_'', None)],
      conds = [],
      c_depth = 0,
      vars = [],
      funs = [(''vFPITask'', task_prototype)]\<rparr>"
  by code_simp

text \<open>
  Assignments are live in the model: a variable that is not \<^verbatim>\<open>constexpr\<close> takes the value
  assigned, while an assignment to a \<^verbatim>\<open>constexpr\<close> constant or to a macro of the header is
  refused.
\<close>

lemma assignment_examples:
  "var_at [Variable False C_int ''x'' (Int_lit 1), Assign ''x'' (Int_lit 2)] 1 ''x''
     = Some (False, Int_val 1)"
  "var_at [Variable False C_int ''x'' (Int_lit 1), Assign ''x'' (Int_lit 2)] 2 ''x''
     = Some (False, Int_val 2)"
  "translate [] (Arm_Rev_B_constants_h @ [Assign ''kRotundaPin'' (Int_lit 3)])
     = Inl (Assign_to_constant ''kRotundaPin'')"
  "translate [] (Arm_Rev_B_constants_h @ [Assign ''EEPROM_SIZE'' (Int_lit 3)])
     = Inl (Not_assignable ''EEPROM_SIZE'')"
  "translate [] (Arm_Rev_B_constants_h @ [Use ''kRotundaPinn'']) = Inl (Undeclared ''kRotundaPinn'')"
  by code_simp+

subsection \<open>Which bindings are kept while a text is read\<close>





















section \<open>Values of the constants\<close>

text \<open>
  Claim C3. The EEPROM size \<^verbatim>\<open>EEPROM_SIZE\<close> is 100 bytes (\<^verbatim>\<open>0x64\<close>) and the EEPROM base
  address \<^verbatim>\<open>BEGINING_ADDR\<close> is \<^verbatim>\<open>0x00\<close> in every constants header that defines them: both
  constants headers define both. (The two task headers define neither.)
\<close>

theorem eeprom_size_and_base_address:
  "macro Arm_Rev_B_constants_h ''EEPROM_SIZE'' = Some 100
   \<and> macro Arm_Rev_B_constants_h ''EEPROM_SIZE'' = Some 0x64
   \<and> macro Arm_Rev_B_constants_h ''BEGINING_ADDR'' = Some 0x00
   \<and> macro IMU_Control_constants_h ''EEPROM_SIZE'' = Some 100
   \<and> macro IMU_Control_constants_h ''EEPROM_SIZE'' = Some 0x64
   \<and> macro IMU_Control_constants_h ''BEGINING_ADDR'' = Some 0x00
   \<and> macro FPI_Control_RTOStasks_h ''EEPROM_SIZE'' = None
   \<and> macro FPI_Control_RTOStasks_h ''BEGINING_ADDR'' = None
   \<and> macro MC_Command_Servo_RTOStasks_h ''EEPROM_SIZE'' = None
   \<and> macro MC_Command_Servo_RTOStasks_h ''BEGINING_ADDR'' = None"
  by (simp add: macro_def translate_headers)

text \<open>
  Claim C1. The constants headers define two I2C bus addresses for each of the two IMU chip
  families: \<^verbatim>\<open>BNO055_ADDR0 = 0x28\<close> and \<^verbatim>\<open>BNO055_ADDR1 = 0x29\<close> (in the Arm_Rev_B header),
  \<^verbatim>\<open>MPU6050_ADDR0 = 0x68\<close> and \<^verbatim>\<open>MPU6050_ADDR1 = 0x69\<close> (in both headers). The two addresses
  of a chip are distinct, and the second is the first plus one. The IMU_Control header
  defines no BNO055 bus address of its own.
\<close>

theorem imu_bus_addresses:
  "macro Arm_Rev_B_constants_h ''BNO055_ADDR0'' = Some 0x28
   \<and> macro Arm_Rev_B_constants_h ''BNO055_ADDR1'' = Some 0x29
   \<and> macro Arm_Rev_B_constants_h ''MPU6050_ADDR0'' = Some 0x68
   \<and> macro Arm_Rev_B_constants_h ''MPU6050_ADDR1'' = Some 0x69
   \<and> macro IMU_Control_constants_h ''MPU6050_ADDR0'' = Some 0x68
   \<and> macro IMU_Control_constants_h ''MPU6050_ADDR1'' = Some 0x69
   \<and> macro Arm_Rev_B_constants_h ''BNO055_ADDR0'' \<noteq> macro Arm_Rev_B_constants_h ''BNO055_ADDR1''
   \<and> macro Arm_Rev_B_constants_h ''MPU6050_ADDR0'' \<noteq> macro Arm_Rev_B_constants_h ''MPU6050_ADDR1''
   \<and> macro IMU_Control_constants_h ''MPU6050_ADDR0'' \<noteq> macro IMU_Control_constants_h ''MPU6050_ADDR1''
   \<and> macro Arm_Rev_B_constants_h ''BNO055_ADDR1''
       = map_option Suc (macro Arm_Rev_B_constants_h ''BNO055_ADDR0'')
   \<and> macro Arm_Rev_B_constants_h ''MPU6050_ADDR1''
       = map_option Suc (macro Arm_Rev_B_constants_h ''MPU6050_ADDR0'')
   \<and> macro IMU_Control_constants_h ''MPU6050_ADDR1''
       = map_option Suc (macro IMU_Control_constants_h ''MPU6050_ADDR0'')
   \<and> macro IMU_Control_constants_h ''BNO055_ADDR0'' = None
   \<and> macro IMU_Control_constants_h ''BNO055_ADDR1'' = None"
  by (simp add: macro_def translate_headers)

text \<open>
  Claim C4. In each constants header the BNO055 register map is: chip id \<^verbatim>\<open>0x00\<close>,
  accelerometer id \<^verbatim>\<open>0x01\<close>, page id \<^verbatim>\<open>0x07\<close>, the six Euler angle registers (yaw, roll,
  pitch; LSB then MSB) at the consecutive addresses \<^verbatim>\<open>0x1A\<close> to \<^verbatim>\<open>0x1F\<close>, unit selection
  \<^verbatim>\<open>0x3B\<close>, operation mode \<^verbatim>\<open>0x3D\<close>, power mode \<^verbatim>\<open>0x3E\<close>, system trigger \<^verbatim>\<open>0x3F\<close>; the
  fourteen MPU6050 data registers (accelerometer X, Y, Z, temperature, gyro X, Y, Z; high
  byte then low byte) are at the consecutive addresses \<^verbatim>\<open>0x3B\<close> to \<^verbatim>\<open>0x48\<close>, and
  \<^verbatim>\<open>MPU6050_PWR_MGMT_1\<close> is \<^verbatim>\<open>0x6B\<close>. As the addresses are consecutive in this order, each
  MSB register is one above its LSB register and each low-byte register one above its
  high-byte register.
\<close>

theorem register_map:
  assumes "h \<in> {Arm_Rev_B_constants_h, IMU_Control_constants_h}"
  shows "macro h ''BNO055_CHIP_ID'' = Some 0x00
     \<and> macro h ''BNO055_ACC_ID'' = Some 0x01
     \<and> macro h ''BNO055_PAGE_ID'' = Some 0x07
     \<and> map (macro h)
          [''BNO055_EUL_YAW_LSB'', ''BNO055_EUL_YAW_MSB'',
           ''BNO055_EUL_ROLL_LSB'', ''BNO055_EUL_ROLL_MSB'',
           ''BNO055_EUL_PITCH_LSB'', ''BNO055_EUL_PITCH_MSB'']
         = map Some [0x1A ..< 0x1F + 1]
     \<and> macro h ''BNO055_UNIT_SEL'' = Some 0x3B
     \<and> macro h ''BNO055_OPR_MODE'' = Some 0x3D
     \<and> macro h ''BNO055_PWR_MODE'' = Some 0x3E
     \<and> macro h ''BNO055_SYS_TRIGGER'' = Some 0x3F
     \<and> map (macro h)
          [''MPU6050_ACCEL_XOUT_H'', ''MPU6050_ACCEL_XOUT_L'',
           ''MPU6050_ACCEL_YOUT_H'', ''MPU6050_ACCEL_YOUT_L'',
           ''MPU6050_ACCEL_ZOUT_H'', ''MPU6050_ACCEL_ZOUT_L'',
           ''MPU6050_TEMP_OUT_H'', ''MPU6050_TEMP_OUT_L'',
           ''MPU6050_GYRO_XOUT_H'', ''MPU6050_GYRO_XOUT_L'',
           ''MPU6050_GYRO_YOUT_H'', ''MPU6050_GYRO_YOUT_L'',
           ''MPU6050_GYRO_ZOUT_H'', ''MPU6050_GYRO_ZOUT_L'']
         = map Some [0x3B ..< 0x48 + 1]
     \<and> macro h ''MPU6050_PWR_MGMT_1'' = Some 0x6B"
proof -
  from assms consider "h = Arm_Rev_B_constants_h" | "h = IMU_Control_constants_h"
    by auto
  then show ?thesis
  proof cases
    case 1
    then show ?thesis by (simp add: macro_def translate_Arm_Rev_B)
  next
    case 2
    then show ?thesis by (simp add: macro_def translate_IMU_Control)
  qed
qed

theorem register_map_witness:
  "IMU_Control_constants_h \<in> {Arm_Rev_B_constants_h, IMU_Control_constants_h}
   \<and> macro IMU_Control_constants_h ''BNO055_EUL_PITCH_MSB'' = Some 0x1F
   \<and> macro IMU_Control_constants_h ''MPU6050_GYRO_ZOUT_L'' = Some 0x48"
proof -
  have h: "IMU_Control_constants_h \<in> {Arm_Rev_B_constants_h, IMU_Control_constants_h}"
    by simp
  from register_map [OF h] h show ?thesis by simp
qed

text \<open>
  Claim C10. In each constants header \<^verbatim>\<open>IMU_ADDRESS_SHOULDER\<close> is \<^verbatim>\<open>0x29\<close>, which is
  \<^verbatim>\<open>BNO055_ADDR1\<close>, the second BNO055 address, and differs from the first BNO055 address
  \<^verbatim>\<open>BNO055_ADDR0\<close> (\<^verbatim>\<open>0x28\<close>) and from both MPU6050 addresses (\<^verbatim>\<open>0x68\<close>, \<^verbatim>\<open>0x69\<close>).
\<close>

theorem shoulder_imu_address:
  assumes "h \<in> {Arm_Rev_B_constants_h, IMU_Control_constants_h}"
  shows "macro h ''IMU_ADDRESS_SHOULDER'' = Some 0x29
     \<and> macro Arm_Rev_B_constants_h ''BNO055_ADDR1'' = Some 0x29
     \<and> macro Arm_Rev_B_constants_h ''BNO055_ADDR0'' = Some 0x28
     \<and> macro h ''MPU6050_ADDR0'' = Some 0x68
     \<and> macro h ''MPU6050_ADDR1'' = Some 0x69
     \<and> macro h ''IMU_ADDRESS_SHOULDER'' = macro Arm_Rev_B_constants_h ''BNO055_ADDR1''
     \<and> macro h ''IMU_ADDRESS_SHOULDER'' \<noteq> macro Arm_Rev_B_constants_h ''BNO055_ADDR0''
     \<and> macro h ''IMU_ADDRESS_SHOULDER'' \<noteq> macro h ''MPU6050_ADDR0''
     \<and> macro h ''IMU_ADDRESS_SHOULDER'' \<noteq> macro h ''MPU6050_ADDR1''"
proof -
  from assms consider "h = Arm_Rev_B_constants_h" | "h = IMU_Control_constants_h"
    by auto
  then show ?thesis
  proof cases
    case 1
    then show ?thesis by (simp add: macro_def translate_Arm_Rev_B)
  next
    case 2
    then show ?thesis by (simp add: macro_def translate_Arm_Rev_B translate_IMU_Control)
  qed
qed

theorem shoulder_imu_address_witness:
  "Arm_Rev_B_constants_h \<in> {Arm_Rev_B_constants_h, IMU_Control_constants_h}
   \<and> macro Arm_Rev_B_constants_h ''IMU_ADDRESS_SHOULDER''
       = macro Arm_Rev_B_constants_h ''BNO055_ADDR1''
   \<and> macro Arm_Rev_B_constants_h ''IMU_ADDRESS_SHOULDER''
       \<noteq> macro Arm_Rev_B_constants_h ''BNO055_ADDR0''"
proof -
  have h: "Arm_Rev_B_constants_h \<in> {Arm_Rev_B_constants_h, IMU_Control_constants_h}"
    by simp
  from shoulder_imu_address [OF h] h show ?thesis by simp
qed

text \<open>
  Claim C6. The Arm_Rev_B header assigns the GPIO pins: rotunda 19, elbow 27, shoulder
  signal 25 and direction 26, wrist left signal 0 and direction 2, wrist right signal 16
  and direction 4, and the actuator pins \<^verbatim>\<open>act_PHASE = 5\<close> and \<^verbatim>\<open>act_ENABLE = 17\<close>.
\<close>

theorem gpio_pins:
  "constexpr_value Arm_Rev_B_constants_h ''kRotundaPin'' = Some (Int_val 19)
   \<and> constexpr_value Arm_Rev_B_constants_h ''kElbowPin'' = Some (Int_val 27)
   \<and> constexpr_value Arm_Rev_B_constants_h ''kShoulderSigPin'' = Some (UInt32_val 25)
   \<and> constexpr_value Arm_Rev_B_constants_h ''kShoulderDirPin'' = Some (UInt32_val 26)
   \<and> constexpr_value Arm_Rev_B_constants_h ''kWristLeftSigPin'' = Some (UInt32_val 0)
   \<and> constexpr_value Arm_Rev_B_constants_h ''kWristLeftDirPin'' = Some (UInt32_val 2)
   \<and> constexpr_value Arm_Rev_B_constants_h ''kWristRightSigPin'' = Some (UInt32_val 16)
   \<and> constexpr_value Arm_Rev_B_constants_h ''kWristRightDirPin'' = Some (UInt32_val 4)
   \<and> macro Arm_Rev_B_constants_h ''act_PHASE'' = Some 5
   \<and> macro Arm_Rev_B_constants_h ''act_ENABLE'' = Some 17"
  by (simp add: macro_def constexpr_value_def translate_headers)

section \<open>Joint configuration\<close>

text \<open>
  Claim C5. For every joint the duty-cycle minimum is strictly below the maximum and the
  position or angle minimum strictly below the maximum: rotunda \<open>2.5 < 12.5\<close> and
  \<open>0 < 3600\<close>; elbow \<open>2.5 < 12.5\<close> and \<open>100 < 290\<close>, with \<open>290\<close> within the range \<open>300\<close>;
  shoulder \<open>0 < 100\<close> and \<open>5 < 70\<close>; wrist \<open>0 < 100\<close> and \<open>-90 < 90\<close>. The frequencies
  (rotunda 50, elbow 50, motor 5000) are positive.
\<close>

theorem pwm_bounds_ordered:
  "constexpr_value Arm_Rev_B_constants_h ''kRotundaPWMMin'' = Some (Double_val 2.5)
   \<and> constexpr_value Arm_Rev_B_constants_h ''kRotundaPWMMax'' = Some (Double_val 12.5)
   \<and> const_less Arm_Rev_B_constants_h ''kRotundaPWMMin'' ''kRotundaPWMMax''
   \<and> constexpr_value Arm_Rev_B_constants_h ''kRotundaPosMin'' = Some (Int_val 0)
   \<and> constexpr_value Arm_Rev_B_constants_h ''kRotundaPosmax'' = Some (Int_val 3600)
   \<and> const_less Arm_Rev_B_constants_h ''kRotundaPosMin'' ''kRotundaPosmax''
   \<and> constexpr_value Arm_Rev_B_constants_h ''kElbowPWMMin'' = Some (Double_val 2.5)
   \<and> constexpr_value Arm_Rev_B_constants_h ''kElbowPWMMax'' = Some (Double_val 12.5)
   \<and> const_less Arm_Rev_B_constants_h ''kElbowPWMMin'' ''kElbowPWMMax''
   \<and> constexpr_value Arm_Rev_B_constants_h ''kElbowLimitMin'' = Some (Int_val 100)
   \<and> constexpr_value Arm_Rev_B_constants_h ''kElbowLimitMax'' = Some (Int_val 290)
   \<and> constexpr_value Arm_Rev_B_constants_h ''kElbowRange'' = Some (Double_val 300)
   \<and> const_less Arm_Rev_B_constants_h ''kElbowLimitMin'' ''kElbowLimitMax''
   \<and> const_le Arm_Rev_B_constants_h ''kElbowLimitMax'' ''kElbowRange''
   \<and> constexpr_value Arm_Rev_B_constants_h ''kShoulderEnablePWMMin'' = Some (UInt32_val 0)
   \<and> constexpr_value Arm_Rev_B_constants_h ''kShoulderEnablePWMMax'' = Some (UInt32_val 100)
   \<and> const_less Arm_Rev_B_constants_h ''kShoulderEnablePWMMin'' ''kShoulderEnablePWMMax''
   \<and> constexpr_value Arm_Rev_B_constants_h ''kShoulderLimitMin'' = Some (Double_val 5)
   \<and> constexpr_value Arm_Rev_B_constants_h ''kShoulderLimitMax'' = Some (Double_val 70)
   \<and> const_less Arm_Rev_B_constants_h ''kShoulderLimitMin'' ''kShoulderLimitMax''
   \<and> constexpr_value Arm_Rev_B_constants_h ''kWristEnablePWMMin'' = Some (UInt32_val 0)
   \<and> constexpr_value Arm_Rev_B_constants_h ''kWristEnablePWMMax'' = Some (UInt32_val 100)
   \<and> const_less Arm_Rev_B_constants_h ''kWristEnablePWMMin'' ''kWristEnablePWMMax''
   \<and> constexpr_value Arm_Rev_B_constants_h ''kWristPitchLimitMin'' = Some (Double_val (- 90))
   \<and> constexpr_value Arm_Rev_B_constants_h ''kWristPitchLimitMax'' = Some (Double_val 90)
   \<and> const_less Arm_Rev_B_constants_h ''kWristPitchLimitMin'' ''kWristPitchLimitMax''
   \<and> constexpr_value Arm_Rev_B_constants_h ''kRotundaFreq'' = Some (Double_val 50)
   \<and> constexpr_value Arm_Rev_B_constants_h ''kElbowFreq'' = Some (Double_val 50)
   \<and> constexpr_value Arm_Rev_B_constants_h ''kMotorFreq'' = Some (UInt32_val 5000)
   \<and> const_positive Arm_Rev_B_constants_h ''kRotundaFreq''
   \<and> const_positive Arm_Rev_B_constants_h ''kElbowFreq''
   \<and> const_positive Arm_Rev_B_constants_h ''kMotorFreq''"
  by (simp add: const_num_def const_less_def const_le_def const_positive_def
      constexpr_value_def translate_headers)

text \<open>
  Claim C9. The start positions lie within the limits of their joints:
  \<^verbatim>\<open>kRotundaStartPos\<close> (1800) in \<open>[0, 3600]\<close>, at the midpoint, and \<^verbatim>\<open>kElbowStartPos\<close> (150)
  in \<open>[100, 290]\<close>.
\<close>

theorem start_positions_within_limits:
  "const_num Arm_Rev_B_constants_h ''kRotundaPosMin'' = Some 0
   \<and> const_num Arm_Rev_B_constants_h ''kRotundaStartPos'' = Some 1800
   \<and> const_num Arm_Rev_B_constants_h ''kRotundaPosmax'' = Some 3600
   \<and> const_le Arm_Rev_B_constants_h ''kRotundaPosMin'' ''kRotundaStartPos''
   \<and> const_le Arm_Rev_B_constants_h ''kRotundaStartPos'' ''kRotundaPosmax''
   \<and> const_num Arm_Rev_B_constants_h ''kRotundaStartPos''
       = map_option (\<lambda>hi. (0 + hi) / 2) (const_num Arm_Rev_B_constants_h ''kRotundaPosmax'')
   \<and> const_num Arm_Rev_B_constants_h ''kElbowLimitMin'' = Some 100
   \<and> const_num Arm_Rev_B_constants_h ''kElbowStartPos'' = Some 150
   \<and> const_num Arm_Rev_B_constants_h ''kElbowLimitMax'' = Some 290
   \<and> const_le Arm_Rev_B_constants_h ''kElbowLimitMin'' ''kElbowStartPos''
   \<and> const_le Arm_Rev_B_constants_h ''kElbowStartPos'' ''kElbowLimitMax''"
  by (simp add: const_num_def const_less_def const_le_def const_positive_def
      constexpr_value_def translate_headers)

section \<open>Task entry points\<close>

text \<open>
  Claim C2. The seven task entry points \<^verbatim>\<open>vFPITask\<close>, \<^verbatim>\<open>vCountTask\<close>, \<^verbatim>\<open>vRotundaTask\<close>,
  \<^verbatim>\<open>vElbowTask\<close>, \<^verbatim>\<open>vShoulderTask\<close>, \<^verbatim>\<open>vDiffGearboxTask\<close> and \<^verbatim>\<open>vClawTask\<close> are each
  declared with C linkage, return type \<^verbatim>\<open>void\<close> and one parameter of type \<^verbatim>\<open>void *\<close>, and are
  not defined. They are all the functions the four headers declare. No item of any header
  has a function body: apart from scaffolding, the headers contain only macro and
  \<^verbatim>\<open>constexpr\<close> constants and these prototypes.
\<close>

theorem task_entry_points_are_prototypes:
  "function_decl FPI_Control_RTOStasks_h ''vFPITask'' = Some task_prototype
   \<and> function_decl MC_Command_Servo_RTOStasks_h ''vCountTask'' = Some task_prototype
   \<and> function_decl MC_Command_Servo_RTOStasks_h ''vRotundaTask'' = Some task_prototype
   \<and> function_decl MC_Command_Servo_RTOStasks_h ''vElbowTask'' = Some task_prototype
   \<and> function_decl MC_Command_Servo_RTOStasks_h ''vShoulderTask'' = Some task_prototype
   \<and> function_decl MC_Command_Servo_RTOStasks_h ''vDiffGearboxTask'' = Some task_prototype
   \<and> function_decl MC_Command_Servo_RTOStasks_h ''vClawTask'' = Some task_prototype
   \<and> c_linkage task_prototype \<and> result task_prototype = C_void
   \<and> params task_prototype = [C_ptr C_void] \<and> \<not> defined task_prototype
   \<and> declared_functions FPI_Control_RTOStasks_h = [''vFPITask'']
   \<and> declared_functions MC_Command_Servo_RTOStasks_h
       = [''vCountTask'', ''vRotundaTask'', ''vElbowTask'', ''vShoulderTask'',
          ''vDiffGearboxTask'', ''vClawTask'']
   \<and> declared_functions Arm_Rev_B_constants_h = []
   \<and> declared_functions IMU_Control_constants_h = []
   \<and> filter has_body
        (Arm_Rev_B_constants_h @ IMU_Control_constants_h
         @ FPI_Control_RTOStasks_h @ MC_Command_Servo_RTOStasks_h) = []
   \<and> list_all (\<lambda>it. is_constant it \<or> is_prototype it \<or> is_scaffolding it)
        (Arm_Rev_B_constants_h @ IMU_Control_constants_h
         @ FPI_Control_RTOStasks_h @ MC_Command_Servo_RTOStasks_h)"
proof -
  have "filter has_body
        (Arm_Rev_B_constants_h @ IMU_Control_constants_h
         @ FPI_Control_RTOStasks_h @ MC_Command_Servo_RTOStasks_h) = []"
    by (simp add: Arm_Rev_B_constants_h_def IMU_Control_constants_h_def
      FPI_Control_RTOStasks_h_def MC_Command_Servo_RTOStasks_h_def)
  moreover have "list_all (\<lambda>it. is_constant it \<or> is_prototype it \<or> is_scaffolding it)
        (Arm_Rev_B_constants_h @ IMU_Control_constants_h
         @ FPI_Control_RTOStasks_h @ MC_Command_Servo_RTOStasks_h)"
    by (simp add: Arm_Rev_B_constants_h_def IMU_Control_constants_h_def
      FPI_Control_RTOStasks_h_def MC_Command_Servo_RTOStasks_h_def)
  ultimately show ?thesis
    by (simp add: function_decl_def declared_functions_def task_prototype_def translate_headers)
qed

section \<open>Constants do not change\<close>




section \<open>The two constants headers agree\<close>

lemma IMU_Control_macros_in_Arm_Rev_B:
  assumes "translate [] IMU_Control_constants_h = Inr si"
    and "translate [] Arm_Rev_B_constants_h = Inr sa"
  shows "list_all (\<lambda>p. map_of (macros sa) (fst p) = Some (snd p)) (macros si)"
  using assms by (auto simp: translate_headers)

text \<open>
  Claim C8. A macro that both constants headers define with a value has the same value in
  the Arm_Rev_B header and in the IMU_Control header.
\<close>

theorem shared_macros_agree:
  assumes "macro Arm_Rev_B_constants_h n = Some v"
    and "macro IMU_Control_constants_h n = Some w"
  shows "v = w"
proof -
  obtain si where si: "translate [] IMU_Control_constants_h = Inr si"
    by (simp add: translate_headers)
  obtain sa where sa: "translate [] Arm_Rev_B_constants_h = Inr sa"
    by (simp add: translate_headers)
  from assms(2) si have "map_of (macros si) n = Some (Some w)"
    by (auto simp: macro_def split: option.splits)
  then have "(n, Some w) \<in> set (macros si)" by (rule map_of_SomeD)
  with IMU_Control_macros_in_Arm_Rev_B [OF si sa] have "map_of (macros sa) n = Some (Some w)"
    by (auto simp: list_all_iff)
  with sa have "macro Arm_Rev_B_constants_h n = Some w"
    by (simp add: macro_def)
  with assms(1) show ?thesis by simp
qed

theorem shared_macros_agree_witness:
  "macro Arm_Rev_B_constants_h ''MPU6050_PWR_MGMT_1'' = Some 0x6B
   \<and> macro IMU_Control_constants_h ''MPU6050_PWR_MGMT_1'' = Some 0x6B
   \<and> macro Arm_Rev_B_constants_h ''MPU6050_PWR_MGMT_1''
       = macro IMU_Control_constants_h ''MPU6050_PWR_MGMT_1''"
proof -
  have a: "macro Arm_Rev_B_constants_h ''MPU6050_PWR_MGMT_1'' = Some 0x6B"
    by (simp add: macro_def translate_headers)
  obtain w where i: "macro IMU_Control_constants_h ''MPU6050_PWR_MGMT_1'' = Some w"
    by (simp add: macro_def translate_headers)
  from shared_macros_agree [OF a i] a i show ?thesis by simp
qed

end
